theory Spec2Isabelle
  imports Main
begin

section \<open>Messages, transcripts and the session store\<close>

text \<open>
  The notebook \<^verbatim>\<open>self_improving_agent.ipynb\<close> keeps, per session id, a
  \<^verbatim>\<open>ChatMessageHistory\<close>: an ordered list of messages, each with a role and a text.
  The three roles are those of the message classes the notebook creates:
  \<^verbatim>\<open>("system", ...)\<close>, \<^verbatim>\<open>("human", ...)\<close> and the model's answers
  (\<^verbatim>\<open>add_ai_message\<close>).
\<close>

datatype role = System | Human | AI

type_synonym message = "role \<times> string"

type_synonym transcript = "message list"

text \<open>\<^verbatim>\<open>self.store = {}\<close>: a dictionary from session id to the session's history.\<close>

type_synonym session_store = "string \<rightharpoonup> transcript"

text \<open>
  Everything that can be raised: the provider error of the language-model call, and the
  two exceptions of template formatting (a variable the inputs do not supply, a brace
  that does not close).
\<close>

datatype error = ProviderError string | KeyError string | ValueError

text \<open>
  The language model is an external collaborator. It is a parameter of every operation:
  a function from its own hidden state (sampling, quota, network) and the list of
  messages it is sent to either an error or the text of its answer, together with its
  next state. Nothing is assumed about it.
\<close>

type_synonym 'l language_model = "'l \<Rightarrow> message list \<Rightarrow> (error + string) \<times> 'l"

section \<open>Prompt templates\<close>

text \<open>
  Modelled from the spec: \<^verbatim>\<open>ChatPromptTemplate\<close> and \<^verbatim>\<open>MessagesPlaceholder\<close> are
  imported from \<^verbatim>\<open>langchain_core.prompts\<close>, which is not part of the sources. A
  template is a list of role/text pairs and placeholders; formatting replaces each
  \<^verbatim>\<open>{name}\<close> of a text by the value of the variable \<^verbatim>\<open>name\<close>, verbatim, and each
  placeholder by the list of messages of that name, in order (``the full prior
  transcript (as role/text pairs, unfiltered, unbounded)''). Only the form
  \<^verbatim>\<open>{name}\<close> is modelled, which is the only use of braces in the notebook's templates.
\<close>

datatype message_like = MessageTemplate role string | MessagesPlaceholder string

type_synonym ChatPromptTemplate = "message_like list"

text \<open>
  \<open>format_template vars field s\<close> scans \<open>s\<close>; \<open>field\<close> is \<open>None\<close> outside braces and
  \<open>Some n\<close> after an opening brace, \<open>n\<close> being the part of the name read so far.
\<close>

fun format_template :: "(string \<rightharpoonup> string) \<Rightarrow> string option \<Rightarrow> string \<Rightarrow> error + string" where
  "format_template vars None [] = Inr []"
| "format_template vars (Some n) [] = Inl ValueError"
| "format_template vars None (c # cs) =
     (if c = CHR ''{'' then format_template vars (Some []) cs
      else if c = CHR ''}'' then Inl ValueError
      else (case format_template vars None cs of
              Inl e \<Rightarrow> Inl e
            | Inr s \<Rightarrow> Inr (c # s)))"
| "format_template vars (Some n) (c # cs) =
     (if c = CHR ''}'' then
        (case vars n of
           None \<Rightarrow> Inl (KeyError n)
         | Some v \<Rightarrow>
             (case format_template vars None cs of
                Inl e \<Rightarrow> Inl e
              | Inr s \<Rightarrow> Inr (v @ s)))
      else if c = CHR ''{'' then Inl ValueError
      else format_template vars (Some (n @ [c])) cs)"

fun format_messages ::
  "ChatPromptTemplate \<Rightarrow> (string \<rightharpoonup> string) \<Rightarrow> (string \<rightharpoonup> message list) \<Rightarrow> error + message list" where
  "format_messages [] vars msgs = Inr []"
| "format_messages (MessageTemplate r t # ts) vars msgs =
     (case format_template vars None t of
        Inl e \<Rightarrow> Inl e
      | Inr s \<Rightarrow>
          (case format_messages ts vars msgs of
             Inl e \<Rightarrow> Inl e
           | Inr ms \<Rightarrow> Inr ((r, s) # ms)))"
| "format_messages (MessagesPlaceholder n # ts) vars msgs =
     (case msgs n of
        None \<Rightarrow> Inl (KeyError n)
      | Some h \<Rightarrow>
          (case format_messages ts vars msgs of
             Inl e \<Rightarrow> Inl e
           | Inr ms \<Rightarrow> Inr (h @ ms)))"

text \<open>
  \<^verbatim>\<open>(prompt | llm).invoke(inputs)\<close>: format the template, then call the model once
  with the formatted messages. A formatting error is raised before the model is called.
\<close>

definition chain_invoke ::
  "'l language_model \<Rightarrow> ChatPromptTemplate \<Rightarrow> 'l \<Rightarrow> (string \<rightharpoonup> string) \<Rightarrow>
   (string \<rightharpoonup> message list) \<Rightarrow> (error + string) \<times> 'l" where
  "chain_invoke complete template l vars msgs =
     (case format_messages template vars msgs of
        Inl e \<Rightarrow> (Inl e, l)
      | Inr p \<Rightarrow> complete l p)"

section \<open>The helper functions of the notebook\<close>

text \<open>
  \<^verbatim>\<open>get_chat_history(store, session_id)\<close>: the history of the session, created
  empty in the store when the id is not there yet. The model returns the history and
  the store after the call.
\<close>

definition get_chat_history :: "session_store \<Rightarrow> string \<Rightarrow> transcript \<times> session_store" where
  "get_chat_history store session_id =
     (case store session_id of
        None \<Rightarrow> ([], store(session_id \<mapsto> []))
      | Some h \<Rightarrow> (h, store))"

text \<open>The template of \<^verbatim>\<open>SelfImprovingAgent.__init__\<close> (\<^verbatim>\<open>self.prompt\<close>).\<close>

definition agent_prompt :: ChatPromptTemplate where
  "agent_prompt =
     [MessageTemplate System ''You are a self-improving AI assistant. Learn from your interactions and improve your performance over time.'',
      MessagesPlaceholder ''history'',
      MessageTemplate Human ''{input}'',
      MessageTemplate System ''Recent insights for improvement: {insights}'']"

text \<open>
  Modelled from the spec: \<^verbatim>\<open>RunnableWithMessageHistory\<close> is imported from
  \<^verbatim>\<open>langchain_core.runnables.history\<close>, which is not part of the sources. The
  notebook configures it with \<^verbatim>\<open>get_chat_history\<close> as the history factory,
  \<^verbatim>\<open>input_messages_key="input"\<close> and \<^verbatim>\<open>history_messages_key="history"\<close>. Its
  \<^verbatim>\<open>invoke\<close> fetches the session's history, passes its messages to the chain under
  the key \<^verbatim>\<open>history\<close>, and, when the chain returns, ``appends the user turn and the
  returned agent turn to the transcript''. When the chain raises, nothing is appended.
\<close>

definition chain_with_history_invoke ::
  "'l language_model \<Rightarrow> ChatPromptTemplate \<Rightarrow> 'l \<Rightarrow> session_store \<Rightarrow>
   (string \<rightharpoonup> string) \<Rightarrow> string \<Rightarrow> (error + string) \<times> 'l \<times> session_store" where
  "chain_with_history_invoke complete template l store inputs session_id =
     (let (history, store1) = get_chat_history store session_id in
      case chain_invoke complete template l inputs [''history'' \<mapsto> history] of
        (Inl e, l1) \<Rightarrow> (Inl e, l1, store1)
      | (Inr content, l1) \<Rightarrow>
          (case inputs ''input'' of
             None \<Rightarrow> (Inl (KeyError ''input''), l1, store1)
           | Some human_input \<Rightarrow>
               (Inr content, l1,
                store1(session_id \<mapsto> history @ [(Human, human_input), (AI, content)]))))"

text \<open>\<^verbatim>\<open>generate_response(chain_with_history, human_input, session_id, insights)\<close>.\<close>

definition generate_response ::
  "'l language_model \<Rightarrow> 'l \<Rightarrow> session_store \<Rightarrow> string \<Rightarrow> string \<Rightarrow> string \<Rightarrow>
   (error + string) \<times> 'l \<times> session_store" where
  "generate_response complete l store human_input session_id insights =
     chain_with_history_invoke complete agent_prompt l store
       [''input'' \<mapsto> human_input, ''insights'' \<mapsto> insights] session_id"

text \<open>\<^verbatim>\<open>reflect(llm, store, session_id)\<close>.\<close>

definition reflection_prompt :: ChatPromptTemplate where
  "reflection_prompt =
     [MessageTemplate System ''Based on the following conversation history, provide insights on how to improve responses:'',
      MessagesPlaceholder ''history'',
      MessageTemplate Human ''Generate insights for improvement:'']"

definition reflect ::
  "'l language_model \<Rightarrow> 'l \<Rightarrow> session_store \<Rightarrow> string \<Rightarrow> (error + string) \<times> 'l \<times> session_store" where
  "reflect complete l store session_id =
     (let (history, store1) = get_chat_history store session_id;
          (reflection_response, l1) =
             chain_invoke complete reflection_prompt l Map.empty [''history'' \<mapsto> history]
      in (reflection_response, l1, store1))"

text \<open>\<^verbatim>\<open>learn(llm, store, session_id, insights)\<close>.\<close>

definition learning_prompt :: ChatPromptTemplate where
  "learning_prompt =
     [MessageTemplate System ''Based on these insights, update the agent's knowledge and behavior:'',
      MessageTemplate Human ''{insights}'',
      MessageTemplate Human ''Summarize the key points to remember:'']"

definition learned_marker :: string where
  "learned_marker = ''[SYSTEM] Agent learned: ''"

definition learn ::
  "'l language_model \<Rightarrow> 'l \<Rightarrow> session_store \<Rightarrow> string \<Rightarrow> string \<Rightarrow>
   (error + string) \<times> 'l \<times> session_store" where
  "learn complete l store session_id insights =
     (case chain_invoke complete learning_prompt l [''insights'' \<mapsto> insights] Map.empty of
        (Inl e, l1) \<Rightarrow> (Inl e, l1, store)
      | (Inr learned_points, l1) \<Rightarrow>
          (let (history, store1) = get_chat_history store session_id in
           (Inr learned_points, l1,
            store1(session_id \<mapsto> history @ [(AI, learned_marker @ learned_points)]))))"

section \<open>The agent\<close>

text \<open>
  \<^verbatim>\<open>class SelfImprovingAgent\<close>: the state of the language model, the session store
  and the insights text, one per agent. The prompt and the chains are fixed at
  construction and are the definitions above.
\<close>

record 'l SelfImprovingAgent =
  llm :: 'l
  store :: session_store
  insights :: string

definition init :: "'l \<Rightarrow> 'l SelfImprovingAgent" where
  "init l = \<lparr>llm = l, store = Map.empty, insights = []\<rparr>"

definition respond ::
  "'l language_model \<Rightarrow> 'l SelfImprovingAgent \<Rightarrow> string \<Rightarrow> string \<Rightarrow>
   (error + string) \<times> 'l SelfImprovingAgent" where
  "respond complete self human_input session_id =
     (let (r, l1, store1) =
            generate_response complete (llm self) (store self) human_input session_id (insights self)
      in (r, self\<lparr>llm := l1, store := store1\<rparr>))"

text \<open>
  \<^verbatim>\<open>SelfImprovingAgent.reflect\<close>: the assignment to \<^verbatim>\<open>self.insights\<close> happens only
  when the helper returns; when it raises, the field keeps its value.
\<close>

definition agent_reflect ::
  "'l language_model \<Rightarrow> 'l SelfImprovingAgent \<Rightarrow> string \<Rightarrow>
   (error + string) \<times> 'l SelfImprovingAgent" where
  "agent_reflect complete self session_id =
     (case reflect complete (llm self) (store self) session_id of
        (Inl e, l1, store1) \<Rightarrow> (Inl e, self\<lparr>llm := l1, store := store1\<rparr>)
      | (Inr r, l1, store1) \<Rightarrow> (Inr r, self\<lparr>llm := l1, store := store1, insights := r\<rparr>))"

text \<open>
  \<^verbatim>\<open>SelfImprovingAgent.learn\<close>: \<^verbatim>\<open>self.reflect(session_id)\<close>, whose result is
  dropped, then the helper \<^verbatim>\<open>learn\<close> on \<^verbatim>\<open>self.insights\<close>; its result is returned
  and not stored.
\<close>

definition agent_learn ::
  "'l language_model \<Rightarrow> 'l SelfImprovingAgent \<Rightarrow> string \<Rightarrow>
   (error + string) \<times> 'l SelfImprovingAgent" where
  "agent_learn complete self session_id =
     (case agent_reflect complete self session_id of
        (Inl e, self1) \<Rightarrow> (Inl e, self1)
      | (Inr _, self1) \<Rightarrow>
          (let (r, l2, store2) =
                 learn complete (llm self1) (store self1) session_id (insights self1)
           in (r, self1\<lparr>llm := l2, store := store2\<rparr>)))"

text \<open>
  A sequence of \<^verbatim>\<open>respond\<close> calls on one session, as in the notebook's example
  usage: the calls run in order, and the first exception ends the run. The result is
  the list of the answers, in call order.
\<close>

fun respond_all ::
  "'l language_model \<Rightarrow> 'l SelfImprovingAgent \<Rightarrow> string list \<Rightarrow> string \<Rightarrow>
   (error + string list) \<times> 'l SelfImprovingAgent" where
  "respond_all complete self [] session_id = (Inr [], self)"
| "respond_all complete self (x # xs) session_id =
     (case respond complete self x session_id of
        (Inl e, self1) \<Rightarrow> (Inl e, self1)
      | (Inr a, self1) \<Rightarrow>
          (case respond_all complete self1 xs session_id of
             (Inl e, self2) \<Rightarrow> (Inl e, self2)
           | (Inr as, self2) \<Rightarrow> (Inr (a # as), self2)))"

section \<open>Observations used in the statements\<close>

text \<open>
  The transcript of a session as a reader sees it: the stored history, empty for an id
  the store does not hold (what \<^verbatim>\<open>get_chat_history\<close> would return).
\<close>

definition transcript_of :: "session_store \<Rightarrow> string \<Rightarrow> transcript" where
  "transcript_of st sid = (case st sid of None \<Rightarrow> [] | Some h \<Rightarrow> h)"

text \<open>
  A collaborator for concrete runs: its state is the list of the replies it still has
  to give and the log of the prompts it has received. Each call logs its prompt and
  gives the next reply; with no reply left it fails.
\<close>

fun scripted :: "((error + string) list \<times> message list list) language_model" where
  "scripted ([], log) p = (Inl (ProviderError ''no reply''), ([], log @ [p]))"
| "scripted (r # rs, log) p = (r, (rs, log @ [p]))"

text \<open>A fresh agent talking to the scripted collaborator with the given replies.\<close>

definition scripted_agent ::
  "(error + string) list \<Rightarrow> ((error + string) list \<times> message list list) SelfImprovingAgent" where
  "scripted_agent replies = init (replies, [])"

text \<open>
  The formatted messages that \<^verbatim>\<open>respond\<close> hands to the model for an input and a
  session: the agent's template on the inputs \<^verbatim>\<open>generate_response\<close> supplies and the
  history of the session.
\<close>

definition respond_prompt :: "'l SelfImprovingAgent \<Rightarrow> string \<Rightarrow> string \<Rightarrow> error + message list" where
  "respond_prompt self human_input session_id =
     format_messages agent_prompt
       [''input'' \<mapsto> human_input, ''insights'' \<mapsto> insights self]
       [''history'' \<mapsto> fst (get_chat_history (store self) session_id)]"

text \<open>Short names for the three fixed instructions, as they stand in the templates.\<close>

abbreviation (input) agent_instruction :: string where
  "agent_instruction \<equiv> ''You are a self-improving AI assistant. Learn from your interactions and improve your performance over time.''"

abbreviation (input) reflection_instruction :: string where
  "reflection_instruction \<equiv> ''Based on the following conversation history, provide insights on how to improve responses:''"

abbreviation (input) learning_instruction :: string where
  "learning_instruction \<equiv> ''Based on these insights, update the agent's knowledge and behavior:''"

section \<open>What the three templates format to\<close>

lemma format_agent_prompt:
  "format_messages agent_prompt [''input'' \<mapsto> i, ''insights'' \<mapsto> ins] [''history'' \<mapsto> h]
   = Inr ((System, agent_instruction) # h @
          [(Human, i), (System, ''Recent insights for improvement: '' @ ins)])"
  by (simp add: agent_prompt_def)

lemma format_reflection_prompt:
  "format_messages reflection_prompt Map.empty [''history'' \<mapsto> h]
   = Inr ((System, reflection_instruction) # h @ [(Human, ''Generate insights for improvement:'')])"
  by (simp add: reflection_prompt_def)

lemma format_learning_prompt:
  "format_messages learning_prompt [''insights'' \<mapsto> ins] Map.empty
   = Inr [(System, learning_instruction), (Human, ins),
          (Human, ''Summarize the key points to remember:'')]"
  by (simp add: learning_prompt_def)

section \<open>The helpers as one model call each\<close>

lemma get_chat_history_eq:
  "get_chat_history st sid =
     (transcript_of st sid, (case st sid of None \<Rightarrow> st(sid \<mapsto> []) | Some h \<Rightarrow> st))"
  by (simp add: get_chat_history_def transcript_of_def split: option.split)

lemma generate_response_eq:
  "generate_response complete l st i sid ins =
     (case complete l ((System, agent_instruction) # transcript_of st sid @
                        [(Human, i), (System, ''Recent insights for improvement: '' @ ins)]) of
        (Inl e, l1) \<Rightarrow> (Inl e, l1, (case st sid of None \<Rightarrow> st(sid \<mapsto> []) | Some h \<Rightarrow> st))
      | (Inr c, l1) \<Rightarrow> (Inr c, l1, st(sid \<mapsto> transcript_of st sid @ [(Human, i), (AI, c)])))"
  unfolding generate_response_def chain_with_history_invoke_def chain_invoke_def
    get_chat_history_eq format_agent_prompt
  by (simp split: prod.split sum.split option.split)

lemma reflect_eq:
  "reflect complete l st sid =
     (case complete l ((System, reflection_instruction) # transcript_of st sid @
                        [(Human, ''Generate insights for improvement:'')]) of
        (r, l1) \<Rightarrow> (r, l1, (case st sid of None \<Rightarrow> st(sid \<mapsto> []) | Some h \<Rightarrow> st)))"
  unfolding reflect_def chain_invoke_def get_chat_history_eq format_reflection_prompt
  by (simp split: prod.split)

lemma learn_eq:
  "learn complete l st sid ins =
     (case complete l [(System, learning_instruction), (Human, ins),
                       (Human, ''Summarize the key points to remember:'')] of
        (Inl e, l1) \<Rightarrow> (Inl e, l1, st)
      | (Inr L, l1) \<Rightarrow>
          (Inr L, l1, st(sid \<mapsto> transcript_of st sid @ [(AI, ''[SYSTEM] Agent learned: '' @ L)])))"
  unfolding learn_def chain_invoke_def get_chat_history_eq format_learning_prompt
  by (simp add: learned_marker_def split: prod.split sum.split option.split)

section \<open>The methods of the agent as model calls\<close>

lemma respond_prompt_eq:
  "respond_prompt self i sid =
     Inr ((System, agent_instruction) # transcript_of (store self) sid @
          [(Human, i), (System, ''Recent insights for improvement: '' @ insights self)])"
  by (simp add: respond_prompt_def get_chat_history_eq format_agent_prompt)

lemma respond_eq:
  "respond complete self i sid =
     (case complete (llm self) ((System, agent_instruction) # transcript_of (store self) sid @
                        [(Human, i), (System, ''Recent insights for improvement: '' @ insights self)]) of
        (Inl e, l1) \<Rightarrow>
          (Inl e, self\<lparr>llm := l1,
                         store := (case store self sid of None \<Rightarrow> (store self)(sid \<mapsto> [])
                                   | Some h \<Rightarrow> store self)\<rparr>)
      | (Inr c, l1) \<Rightarrow>
          (Inr c, self\<lparr>llm := l1,
                         store := (store self)(sid \<mapsto> transcript_of (store self) sid @ [(Human, i), (AI, c)])\<rparr>))"
  by (simp add: respond_def generate_response_eq split: prod.split sum.split)

lemma agent_reflect_eq:
  "agent_reflect complete self sid =
     (case complete (llm self) ((System, reflection_instruction) # transcript_of (store self) sid @
                        [(Human, ''Generate insights for improvement:'')]) of
        (Inl e, l1) \<Rightarrow>
          (Inl e, self\<lparr>llm := l1,
                         store := (case store self sid of None \<Rightarrow> (store self)(sid \<mapsto> [])
                                   | Some h \<Rightarrow> store self)\<rparr>)
      | (Inr r, l1) \<Rightarrow>
          (Inr r, self\<lparr>llm := l1,
                         store := (case store self sid of None \<Rightarrow> (store self)(sid \<mapsto> [])
                                   | Some h \<Rightarrow> store self),
                         insights := r\<rparr>))"
  by (simp add: agent_reflect_def reflect_eq split: prod.split sum.split)

lemma transcript_of_created:
  "transcript_of (case st sid of None \<Rightarrow> st(sid \<mapsto> []) | Some h \<Rightarrow> st) s = transcript_of st s"
  by (simp add: transcript_of_def split: option.split)

lemma transcript_of_upd:
  "transcript_of (st(sid \<mapsto> h)) s = (if s = sid then h else transcript_of st s)"
  by (simp add: transcript_of_def)

lemma respond_Inr:
  assumes "respond complete self x sid = (Inr a, self1)"
  shows "transcript_of (store self1) sid = transcript_of (store self) sid @ [(Human, x), (AI, a)]"
    and "insights self1 = insights self"
  using assms by (auto simp: respond_eq transcript_of_upd split: prod.splits sum.splits)

lemma respond_all_transcript:
  "respond_all complete self xs sid = (Inr as, self') \<Longrightarrow>
     length as = length xs \<and>
     transcript_of (store self') sid =
       transcript_of (store self) sid @ concat (map2 (\<lambda>x a. [(Human, x), (AI, a)]) xs as)"
proof (induction xs arbitrary: self as)
  case Nil
  then show ?case by simp
next
  case (Cons x xs)
  from Cons.prems obtain a self1 bs where
    r: "respond complete self x sid = (Inr a, self1)" and
    rs: "respond_all complete self1 xs sid = (Inr bs, self')" and
    as: "as = a # bs"
    by (auto split: prod.splits sum.splits)
  from Cons.IH [OF rs] respond_Inr(1) [OF r] as show ?case by simp
qed

lemma turns_shape:
  "length as = length xs \<Longrightarrow>
     length (concat (map2 (\<lambda>x a. [(Human, x), (AI, a)]) xs as)) = 2 * length xs \<and>
     map fst (concat (map2 (\<lambda>x a. [(Human, x), (AI, a)]) xs as)) =
       concat (replicate (length xs) [Human, AI])"
  by (induction as xs rule: list_induct2) auto

lemma agent_learn_eq:
  "agent_learn complete self sid =
     (case complete (llm self) ((System, reflection_instruction) # transcript_of (store self) sid @
                        [(Human, ''Generate insights for improvement:'')]) of
        (Inl e, l1) \<Rightarrow>
          (Inl e, self\<lparr>llm := l1,
                         store := (case store self sid of None \<Rightarrow> (store self)(sid \<mapsto> [])
                                   | Some h \<Rightarrow> store self)\<rparr>)
      | (Inr r, l1) \<Rightarrow>
          (case complete l1 [(System, learning_instruction), (Human, r),
                             (Human, ''Summarize the key points to remember:'')] of
             (Inl e, l2) \<Rightarrow>
               (Inl e, self\<lparr>llm := l2,
                              store := (case store self sid of None \<Rightarrow> (store self)(sid \<mapsto> [])
                                        | Some h \<Rightarrow> store self),
                              insights := r\<rparr>)
           | (Inr L, l2) \<Rightarrow>
               (Inr L, self\<lparr>llm := l2,
                              store := (store self)(sid \<mapsto> transcript_of (store self) sid @
                                          [(AI, ''[SYSTEM] Agent learned: '' @ L)]),
                              insights := r\<rparr>)))"
  by (auto simp: agent_learn_def agent_reflect_eq learn_eq transcript_of_created
           split: prod.splits sum.splits option.splits)

lemma created_eq:
  "(case st sid of None \<Rightarrow> st(sid \<mapsto> []) | Some h \<Rightarrow> st) = st(sid \<mapsto> transcript_of st sid)"
  by (auto simp: transcript_of_def split: option.splits)

section \<open>The claims\<close>

subsection \<open>Claim C1: what the insights are after learn\<close>

text \<open>
  Claim C1 says that after the agent's \<^verbatim>\<open>learn\<close> returns the learned text, the
  stored insights are that text and the next prompt's last note embeds it. On the
  run below \<^verbatim>\<open>learn\<close> returns \<open>L\<close>, the stored insights are not \<open>L\<close>, and the
  messages that the next \<^verbatim>\<open>respond\<close> call sends to the model (the last entry of
  the collaborator's log after that call) end with the note
  \<^verbatim>\<open>Recent insights for improvement: R\<close>, in which \<open>L\<close> does not occur.
\<close>

theorem learned_text_is_insights_counterexample:
  "fst (agent_learn scripted (scripted_agent [Inr ''R'', Inr ''L'', Inr ''T'']) ''s1'') = Inr ''L''
   \<and> insights (snd (agent_learn scripted (scripted_agent [Inr ''R'', Inr ''L'', Inr ''T'']) ''s1'')) \<noteq> ''L''
   \<and> last (snd (llm (snd (respond scripted
        (snd (agent_learn scripted (scripted_agent [Inr ''R'', Inr ''L'', Inr ''T'']) ''s1''))
        ''More'' ''s2''))))
      = [(System, agent_instruction), (Human, ''More''),
         (System, ''Recent insights for improvement: R'')]
   \<and> respond_prompt (snd (agent_learn scripted (scripted_agent [Inr ''R'', Inr ''L'', Inr ''T'']) ''s1''))
        ''More'' ''s2''
      = Inr [(System, agent_instruction), (Human, ''More''),
             (System, ''Recent insights for improvement: R'')]"
  by (simp add: agent_learn_eq respond_eq respond_prompt_eq scripted_agent_def init_def transcript_of_def)

text \<open>
  Claim C1, amended. After the agent's \<^verbatim>\<open>learn\<close> on a session returns the learned
  text, the stored insights are the reflection text that the model gave inside that
  call, and the prompt of the next \<^verbatim>\<open>respond\<close> call, on any session, ends with the
  system note that embeds that reflection text verbatim: the outcome of that
  \<^verbatim>\<open>respond\<close> call and the state of the model after it are those of the model
  called once on these messages. The learned text itself is kept as the last turn of
  the session's transcript, after the marker.
\<close>

theorem learn_then_respond_embeds_reflection:
  assumes "agent_learn complete self session_id = (Inr learned, self1)"
  shows "\<exists>reflection l1.
           complete (llm self)
             ((System, reflection_instruction) # transcript_of (store self) session_id @
              [(Human, ''Generate insights for improvement:'')]) = (Inr reflection, l1)
         \<and> insights self1 = reflection
         \<and> respond_prompt self1 human_input other_session =
             Inr ((System, agent_instruction) # transcript_of (store self1) other_session @
                  [(Human, human_input),
                   (System, ''Recent insights for improvement: '' @ reflection)])
         \<and> fst (respond complete self1 human_input other_session) =
             fst (complete (llm self1)
                   ((System, agent_instruction) # transcript_of (store self1) other_session @
                    [(Human, human_input),
                     (System, ''Recent insights for improvement: '' @ reflection)]))
         \<and> llm (snd (respond complete self1 human_input other_session)) =
             snd (complete (llm self1)
                   ((System, agent_instruction) # transcript_of (store self1) other_session @
                    [(Human, human_input),
                     (System, ''Recent insights for improvement: '' @ reflection)]))
         \<and> transcript_of (store self1) session_id =
             transcript_of (store self) session_id @
             [(AI, ''[SYSTEM] Agent learned: '' @ learned)]"
  using assms
  by (auto simp: agent_learn_eq respond_prompt_eq respond_eq transcript_of_upd
           split: prod.splits sum.splits)

theorem learn_then_respond_embeds_reflection_witness:
  "fst (agent_learn scripted (scripted_agent [Inr ''R'', Inr ''L'', Inr ''T'']) ''s1'') = Inr ''L''
   \<and> insights (snd (agent_learn scripted (scripted_agent [Inr ''R'', Inr ''L'', Inr ''T'']) ''s1'')) = ''R''
   \<and> transcript_of (store (snd (agent_learn scripted (scripted_agent [Inr ''R'', Inr ''L'', Inr ''T'']) ''s1''))) ''s1''
      = [(AI, ''[SYSTEM] Agent learned: L'')]
   \<and> fst (respond scripted
        (snd (agent_learn scripted (scripted_agent [Inr ''R'', Inr ''L'', Inr ''T'']) ''s1''))
        ''More'' ''s2'')
      = fst (scripted
          (llm (snd (agent_learn scripted (scripted_agent [Inr ''R'', Inr ''L'', Inr ''T'']) ''s1'')))
          [(System, agent_instruction), (Human, ''More''),
           (System, ''Recent insights for improvement: R'')])"
proof -
  let ?a = "scripted_agent [Inr ''R'', Inr ''L'', Inr ''T'']"
  let ?run = "agent_learn scripted ?a ''s1''"
  have e: "fst ?run = Inr ''L''"
    by (simp add: agent_learn_eq scripted_agent_def init_def transcript_of_def)
  then have r: "?run = (Inr ''L'', snd ?run)"
    by (simp add: prod_eq_iff)
  have h: "scripted (llm ?a)
     ((System, reflection_instruction) # transcript_of (store ?a) ''s1'' @
      [(Human, ''Generate insights for improvement:'')])
     = (Inr ''R'', ([Inr ''L'', Inr ''T''],
         [[(System, reflection_instruction), (Human, ''Generate insights for improvement:'')]]))"
    and t: "transcript_of (store ?a) ''s1'' = []"
    by (simp_all add: scripted_agent_def init_def transcript_of_def)
  have t2: "transcript_of (store (snd ?run)) ''s2'' = []"
    by (simp add: agent_learn_eq scripted_agent_def init_def transcript_of_def)
  from learn_then_respond_embeds_reflection [of scripted ?a "''s1''" "''L''" "snd ?run" "''More''" "''s2''", OF r] h
  have "insights (snd ?run) = ''R''"
    and "transcript_of (store (snd ?run)) ''s1'' =
         transcript_of (store ?a) ''s1'' @ [(AI, ''[SYSTEM] Agent learned: '' @ ''L'')]"
    and "fst (respond scripted (snd ?run) ''More'' ''s2'') =
         fst (scripted (llm (snd ?run))
               ((System, agent_instruction) # transcript_of (store (snd ?run)) ''s2'' @
                [(Human, ''More''), (System, ''Recent insights for improvement: '' @ ''R'')]))"
    by auto
  with e t t2 show ?thesis by simp
qed

subsection \<open>Claim C2: one insights value for all sessions\<close>

text \<open>
  Claim C2. The insights are one field of the agent. After the agent's \<^verbatim>\<open>reflect\<close>
  on session \<open>A\<close> returns a text, the prompt of the next \<^verbatim>\<open>respond\<close> call on any
  session \<open>B\<close> ends with the system note embedding that text; after the agent's
  \<^verbatim>\<open>learn\<close> on \<open>A\<close> returns, the prompt of the next \<^verbatim>\<open>respond\<close> call on \<open>B\<close>
  ends with the note embedding the insights that call stored (the reflection text
  the model gave for \<open>A\<close>'s transcript). In both cases these are the messages the
  model is called with.
\<close>

theorem insights_shared_across_sessions:
  "(agent_reflect complete self A = (Inr reflection, self1) \<longrightarrow>
      insights self1 = reflection
      \<and> respond_prompt self1 human_input B =
          Inr ((System, agent_instruction) # transcript_of (store self1) B @
               [(Human, human_input),
                (System, ''Recent insights for improvement: '' @ reflection)])
      \<and> fst (respond complete self1 human_input B) =
          fst (complete (llm self1)
                ((System, agent_instruction) # transcript_of (store self1) B @
                 [(Human, human_input),
                  (System, ''Recent insights for improvement: '' @ reflection)])))
   \<and> (agent_learn complete self A = (Inr learned, self2) \<longrightarrow>
      respond_prompt self2 human_input B =
          Inr ((System, agent_instruction) # transcript_of (store self2) B @
               [(Human, human_input),
                (System, ''Recent insights for improvement: '' @ insights self2)])
      \<and> fst (respond complete self2 human_input B) =
          fst (complete (llm self2)
                ((System, agent_instruction) # transcript_of (store self2) B @
                 [(Human, human_input),
                  (System, ''Recent insights for improvement: '' @ insights self2)]))
      \<and> (\<exists>l1. complete (llm self)
                  ((System, reflection_instruction) # transcript_of (store self) A @
                   [(Human, ''Generate insights for improvement:'')]) = (Inr (insights self2), l1)))"
  by (auto simp: agent_reflect_eq agent_learn_eq respond_prompt_eq respond_eq
           split: prod.splits sum.splits)

theorem insights_shared_across_sessions_witness:
  "fst (agent_reflect scripted (scripted_agent [Inr ''R'']) ''s1'') = Inr ''R''
   \<and> respond_prompt (snd (agent_reflect scripted (scripted_agent [Inr ''R'']) ''s1'')) ''Hi'' ''s2''
      = Inr [(System, agent_instruction), (Human, ''Hi''),
             (System, ''Recent insights for improvement: R'')]
   \<and> fst (agent_learn scripted (scripted_agent [Inr ''R'', Inr ''L'']) ''s1'') = Inr ''L''
   \<and> respond_prompt (snd (agent_learn scripted (scripted_agent [Inr ''R'', Inr ''L'']) ''s1'')) ''Hi'' ''s2''
      = Inr [(System, agent_instruction), (Human, ''Hi''),
             (System, ''Recent insights for improvement: R'')]"
proof -
  let ?a1 = "scripted_agent [Inr ''R'']"
  let ?a2 = "scripted_agent [Inr ''R'', Inr ''L'']"
  let ?r1 = "agent_reflect scripted ?a1 ''s1''"
  let ?r2 = "agent_learn scripted ?a2 ''s1''"
  have e1: "fst ?r1 = Inr ''R''"
    by (simp add: agent_reflect_eq scripted_agent_def init_def transcript_of_def)
  then have r1: "?r1 = (Inr ''R'', snd ?r1)"
    by (simp add: prod_eq_iff)
  have e2: "fst ?r2 = Inr ''L''"
    by (simp add: agent_learn_eq scripted_agent_def init_def transcript_of_def)
  then have r2: "?r2 = (Inr ''L'', snd ?r2)"
    by (simp add: prod_eq_iff)
  have t1: "transcript_of (store (snd ?r1)) ''s2'' = []"
    by (simp add: agent_reflect_eq scripted_agent_def init_def transcript_of_def)
  have t2: "transcript_of (store (snd ?r2)) ''s2'' = []"
    and i2: "insights (snd ?r2) = ''R''"
    by (simp_all add: agent_learn_eq scripted_agent_def init_def transcript_of_def)
  from insights_shared_across_sessions [of scripted ?a1 "''s1''" "''R''" "snd ?r1" "''Hi''" "''s2''"] r1
  have p1: "respond_prompt (snd ?r1) ''Hi'' ''s2'' =
          Inr ((System, agent_instruction) # transcript_of (store (snd ?r1)) ''s2'' @
               [(Human, ''Hi''), (System, ''Recent insights for improvement: '' @ ''R'')])"
    by blast
  from insights_shared_across_sessions [of scripted ?a2 "''s1''" _ _ "''Hi''" "''s2''" "''L''" "snd ?r2"] r2
  have p2: "respond_prompt (snd ?r2) ''Hi'' ''s2'' =
          Inr ((System, agent_instruction) # transcript_of (store (snd ?r2)) ''s2'' @
               [(Human, ''Hi''), (System, ''Recent insights for improvement: '' @ insights (snd ?r2))])"
    by blast
  from e1 e2 p1 p2 t1 t2 i2 show ?thesis by simp
qed

subsection \<open>Claim C3: two turns per respond call\<close>

text \<open>
  Claim C3. On a session whose transcript is empty, after \<open>N\<close> \<^verbatim>\<open>respond\<close> calls
  that all returned, the transcript has exactly \<open>2 * N\<close> turns: for each call in
  order, the human turn with the call's input and then the agent turn with the
  call's answer, so the roles read human, agent, human, agent, ...
\<close>

theorem respond_all_fresh_session:
  assumes "transcript_of (store self) session_id = []"
    and "respond_all complete self inputs session_id = (Inr answers, self')"
  shows "length (transcript_of (store self') session_id) = 2 * length inputs
    \<and> length answers = length inputs
    \<and> transcript_of (store self') session_id =
        concat (map2 (\<lambda>x a. [(Human, x), (AI, a)]) inputs answers)
    \<and> map fst (transcript_of (store self') session_id) =
        concat (replicate (length inputs) [Human, AI])"
  using respond_all_transcript [OF assms(2)] assms(1) turns_shape [of answers inputs]
  by simp

theorem respond_all_fresh_session_witness:
  "transcript_of (store (scripted_agent [Inr ''T1'', Inr ''T2''])) ''s1'' = []
   \<and> fst (respond_all scripted (scripted_agent [Inr ''T1'', Inr ''T2'']) [''Hi'', ''More''] ''s1'')
       = Inr [''T1'', ''T2'']
   \<and> transcript_of
        (store (snd (respond_all scripted (scripted_agent [Inr ''T1'', Inr ''T2'']) [''Hi'', ''More''] ''s1'')))
        ''s1''
       = [(Human, ''Hi''), (AI, ''T1''), (Human, ''More''), (AI, ''T2'')]"
proof -
  let ?run = "respond_all scripted (scripted_agent [Inr ''T1'', Inr ''T2'']) [''Hi'', ''More''] ''s1''"
  have f: "transcript_of (store (scripted_agent [Inr ''T1'', Inr ''T2''])) ''s1'' = []"
    by (simp add: scripted_agent_def init_def transcript_of_def)
  have e: "fst ?run = Inr [''T1'', ''T2'']"
    by (simp add: respond_eq scripted_agent_def init_def transcript_of_def)
  then have r: "?run = (Inr [''T1'', ''T2''], snd ?run)"
    by (simp add: prod_eq_iff)
  have "transcript_of (store (snd ?run)) ''s1'' =
          concat (map2 (\<lambda>x a. [(Human, x), (AI, a)]) [''Hi'', ''More''] [''T1'', ''T2''])"
    using respond_all_fresh_session [OF f r] by blast
  then have "transcript_of (store (snd ?run)) ''s1'' =
          [(Human, ''Hi''), (AI, ''T1''), (Human, ''More''), (AI, ''T2'')]"
    by (simp only: zip.simps list.case map_prod_simp list.map concat.simps append.simps prod.case)
  with f e show ?thesis by blast
qed

subsection \<open>Claim C4: learn appends one marked turn\<close>

text \<open>
  Claim C4. For every store, session id (known to the store or not) and insights
  text: when the model answers the learning prompt with a text, the helper
  \<^verbatim>\<open>learn\<close> returns that text, and the store after the call is the store before
  it with the session bound to its former transcript followed by exactly one turn,
  whose text is the marker \<^verbatim>\<open>[SYSTEM] Agent learned: \<close> followed by the returned
  text. Conversely \<^verbatim>\<open>learn\<close> returns a text only when the model gave it; then the
  transcript is one turn longer, the text of its last turn begins with the marker,
  and what follows the marker is the returned text.
\<close>

theorem learn_appends_marked_turn:
  "(complete l [(System, learning_instruction), (Human, ins),
                (Human, ''Summarize the key points to remember:'')] = (Inr learned, l1) \<longrightarrow>
      learn complete l st session_id ins =
        (Inr learned, l1,
         st(session_id \<mapsto> transcript_of st session_id @ [(AI, learned_marker @ learned)])))
   \<and> (learn complete l st session_id ins = (Inr learned, l1, st1) \<longrightarrow>
      complete l [(System, learning_instruction), (Human, ins),
                  (Human, ''Summarize the key points to remember:'')] = (Inr learned, l1)
      \<and> transcript_of st1 session_id =
           transcript_of st session_id @ [(AI, ''[SYSTEM] Agent learned: '' @ learned)]
      \<and> length (transcript_of st1 session_id) = Suc (length (transcript_of st session_id))
      \<and> take (length learned_marker) (snd (last (transcript_of st1 session_id))) = learned_marker
      \<and> drop (length learned_marker) (snd (last (transcript_of st1 session_id))) = learned)"
  by (auto simp: learn_eq transcript_of_upd learned_marker_def split: prod.splits sum.splits)

theorem learn_appends_marked_turn_witness:
  "scripted ([Inr ''L''], [])
     [(System, learning_instruction), (Human, ''R''),
      (Human, ''Summarize the key points to remember:'')]
     = (Inr ''L'',
        ([], [[(System, learning_instruction), (Human, ''R''),
               (Human, ''Summarize the key points to remember:'')]]))
   \<and> learn scripted ([Inr ''L''], []) [''s1'' \<mapsto> [(Human, ''Hi''), (AI, ''T1'')]] ''s2'' ''R'' =
     (Inr ''L'',
      ([], [[(System, learning_instruction), (Human, ''R''),
             (Human, ''Summarize the key points to remember:'')]]),
      [''s1'' \<mapsto> [(Human, ''Hi''), (AI, ''T1'')], ''s2'' \<mapsto> [(AI, ''[SYSTEM] Agent learned: L'')]])
   \<and> learn scripted ([Inr ''L''], []) [''s1'' \<mapsto> [(Human, ''Hi''), (AI, ''T1'')]] ''s1'' ''R'' =
     (Inr ''L'',
      ([], [[(System, learning_instruction), (Human, ''R''),
             (Human, ''Summarize the key points to remember:'')]]),
      [''s1'' \<mapsto> [(Human, ''Hi''), (AI, ''T1''), (AI, ''[SYSTEM] Agent learned: L'')]])
   \<and> drop (length learned_marker)
        (snd (last (transcript_of
           [''s1'' \<mapsto> [(Human, ''Hi''), (AI, ''T1''), (AI, ''[SYSTEM] Agent learned: L'')]] ''s1'')))
      = ''L''"
proof -
  let ?p = "[(System, learning_instruction), (Human, ''R''),
             (Human, ''Summarize the key points to remember:'')]"
  let ?st = "[''s1'' \<mapsto> [(Human, ''Hi''), (AI, ''T1'')]]"
  have h: "scripted ([Inr ''L''], []) ?p = (Inr ''L'', ([], [?p]))"
    by simp
  from learn_appends_marked_turn [of scripted "([Inr ''L''], [])" "''R''" "''L''" "([], [?p])" ?st "''s2''"] h
  have r2: "learn scripted ([Inr ''L''], []) ?st ''s2'' ''R'' =
      (Inr ''L'', ([], [?p]),
       ?st(''s2'' \<mapsto> transcript_of ?st ''s2'' @ [(AI, learned_marker @ ''L'')]))"
    by blast
  from learn_appends_marked_turn [of scripted "([Inr ''L''], [])" "''R''" "''L''" "([], [?p])" ?st "''s1''"] h
  have r1: "learn scripted ([Inr ''L''], []) ?st ''s1'' ''R'' =
      (Inr ''L'', ([], [?p]),
       ?st(''s1'' \<mapsto> transcript_of ?st ''s1'' @ [(AI, learned_marker @ ''L'')]))"
    by blast
  from learn_appends_marked_turn [of scripted "([Inr ''L''], [])" "''R''" "''L''" "([], [?p])" ?st "''s1''"
                 "?st(''s1'' \<mapsto> transcript_of ?st ''s1'' @ [(AI, learned_marker @ ''L'')])"] r1
  have d: "drop (length learned_marker)
        (snd (last (transcript_of
           (?st(''s1'' \<mapsto> transcript_of ?st ''s1'' @ [(AI, learned_marker @ ''L'')])) ''s1''))) = ''L''"
    by blast
  have s1: "?st(''s1'' \<mapsto> transcript_of ?st ''s1'' @ [(AI, learned_marker @ ''L'')]) =
        [''s1'' \<mapsto> [(Human, ''Hi''), (AI, ''T1''), (AI, ''[SYSTEM] Agent learned: L'')]]"
    and s2: "?st(''s2'' \<mapsto> transcript_of ?st ''s2'' @ [(AI, learned_marker @ ''L'')]) =
        [''s1'' \<mapsto> [(Human, ''Hi''), (AI, ''T1'')], ''s2'' \<mapsto> [(AI, ''[SYSTEM] Agent learned: L'')]]"
    by (simp_all add: transcript_of_def learned_marker_def)
  from h r1 r2 d show ?thesis unfolding s1 s2 by blast
qed

subsection \<open>Claim C5: the role of the appended turn\<close>

text \<open>
  Claim C5 says that the turn \<^verbatim>\<open>learn\<close> appends has the system role. The notebook
  appends it with \<^verbatim>\<open>add_ai_message\<close>: on the run below the role of the appended
  turn is not \<open>System\<close>.
\<close>

theorem learn_turn_is_system_counterexample:
  "fst (last (transcript_of (snd (snd (learn scripted ([Inr ''L''], []) Map.empty ''s1'' ''R''))) ''s1''))
     \<noteq> System"
  by (simp add: learn_eq transcript_of_def)

text \<open>
  Claim C5, amended. The turn \<^verbatim>\<open>learn\<close> appends is an agent turn (role \<open>AI\<close>, the
  role of the model's answers); it is marked as system-authored by its text only,
  which begins with \<^verbatim>\<open>[SYSTEM]\<close>.
\<close>

theorem learn_turn_is_agent_turn:
  assumes "learn complete l st session_id ins = (Inr learned, l1, st1)"
  shows "fst (last (transcript_of st1 session_id)) = AI
    \<and> take 8 (snd (last (transcript_of st1 session_id))) = ''[SYSTEM]''"
  using assms
  by (auto simp: learn_eq transcript_of_upd split: prod.splits sum.splits)

theorem learn_turn_is_agent_turn_witness:
  "fst (learn scripted ([Inr ''L''], []) Map.empty ''s1'' ''R'') = Inr ''L''
   \<and> last (transcript_of (snd (snd (learn scripted ([Inr ''L''], []) Map.empty ''s1'' ''R''))) ''s1'')
       = (AI, ''[SYSTEM] Agent learned: L'')"
proof -
  let ?run = "learn scripted ([Inr ''L''], []) Map.empty ''s1'' ''R''"
  have e: "fst ?run = Inr ''L''"
    by (simp add: learn_eq)
  then have r: "?run = (Inr ''L'', fst (snd ?run), snd (snd ?run))"
    by (simp add: prod_eq_iff)
  have t: "transcript_of (snd (snd ?run)) ''s1'' = [(AI, ''[SYSTEM] Agent learned: L'')]"
    by (simp add: learn_eq transcript_of_def)
  from learn_turn_is_agent_turn [OF r] have "fst (last (transcript_of (snd (snd ?run)) ''s1'')) = AI"
    by blast
  with e t show ?thesis by simp
qed

subsection \<open>Claim C6: reflect and the store\<close>

text \<open>
  Claim C6 says that the whole session store is identical before and after
  \<^verbatim>\<open>reflect\<close>. The helper reads the history through \<^verbatim>\<open>get_chat_history\<close>, which
  creates the entry of an unknown id: on the empty store the store after the call is
  not empty.
\<close>

theorem reflect_store_identical_counterexample:
  "snd (snd (reflect scripted ([Inr ''R''], []) Map.empty ''s1'')) \<noteq> Map.empty"
proof
  assume "snd (snd (reflect scripted ([Inr ''R''], []) Map.empty ''s1'')) = Map.empty"
  then have "snd (snd (reflect scripted ([Inr ''R''], []) Map.empty ''s1'')) ''s1'' = None"
    by simp
  then show False by (simp add: reflect_eq)
qed

text \<open>
  Claim C6, amended. \<^verbatim>\<open>reflect\<close> changes the turns of no transcript: every
  session's transcript, read as empty for an id the store does not hold, is the same
  before and after the call, whether the model call succeeds or fails. When the
  session id is in the store, the store after the call is the store before it; when
  it is not, the only change is the new empty transcript under that id. The same
  holds for the agent's \<^verbatim>\<open>reflect\<close> method.
\<close>

theorem reflect_keeps_transcripts:
  "transcript_of (snd (snd (reflect complete l st session_id))) s = transcript_of st s
   \<and> (session_id \<in> dom st \<longrightarrow> snd (snd (reflect complete l st session_id)) = st)
   \<and> (session_id \<notin> dom st \<longrightarrow>
        snd (snd (reflect complete l st session_id)) = st(session_id \<mapsto> []))
   \<and> transcript_of (store (snd (agent_reflect complete self session_id))) s =
        transcript_of (store self) s"
  by (auto simp: reflect_eq agent_reflect_eq transcript_of_created split: prod.splits sum.splits)

theorem reflect_keeps_transcripts_witness:
  "''s1'' \<in> dom [''s1'' \<mapsto> [(Human, ''Hi''), (AI, ''T1'')]]
   \<and> ''s2'' \<notin> dom [''s1'' \<mapsto> [(Human, ''Hi''), (AI, ''T1'')]]
   \<and> snd (snd (reflect scripted ([Inr ''R''], []) [''s1'' \<mapsto> [(Human, ''Hi''), (AI, ''T1'')]] ''s1''))
       = [''s1'' \<mapsto> [(Human, ''Hi''), (AI, ''T1'')]]
   \<and> snd (snd (reflect scripted ([Inr ''R''], []) [''s1'' \<mapsto> [(Human, ''Hi''), (AI, ''T1'')]] ''s2''))
       = [''s1'' \<mapsto> [(Human, ''Hi''), (AI, ''T1'')], ''s2'' \<mapsto> []]"
proof -
  have a: "''s1'' \<in> dom [''s1'' \<mapsto> [(Human, ''Hi''), (AI, ''T1'')]]"
    and b: "''s2'' \<notin> dom [''s1'' \<mapsto> [(Human, ''Hi''), (AI, ''T1'')]]"
    by simp_all
  from a b
    reflect_keeps_transcripts [of scripted "([Inr ''R''], [])" "[''s1'' \<mapsto> [(Human, ''Hi''), (AI, ''T1'')]]" "''s1''"]
    reflect_keeps_transcripts [of scripted "([Inr ''R''], [])" "[''s1'' \<mapsto> [(Human, ''Hi''), (AI, ''T1'')]]" "''s2''"]
  show ?thesis by blast
qed

subsection \<open>Claim C7: the order of the prompt\<close>

text \<open>
  Claim C7. For every transcript, insights text (empty or not) and user input, the
  messages \<^verbatim>\<open>respond\<close> builds are, in this order: the fixed system instruction,
  every turn of the session's transcript as it is stored, the new human turn, and a
  last system note that is the text \<^verbatim>\<open>Recent insights for improvement: \<close> followed by
  the agent's insights. These messages are what the model is called with: the outcome
  of \<^verbatim>\<open>respond\<close> is the outcome of the model on them, whatever the model is.
\<close>

theorem respond_prompt_order:
  "respond_prompt self human_input session_id =
     Inr ([(System, agent_instruction)] @ transcript_of (store self) session_id @
          [(Human, human_input)] @
          [(System, ''Recent insights for improvement: '' @ insights self)])
   \<and> fst (respond complete self human_input session_id) =
     fst (complete (llm self)
           ([(System, agent_instruction)] @ transcript_of (store self) session_id @
            [(Human, human_input)] @
            [(System, ''Recent insights for improvement: '' @ insights self)]))"
  by (simp add: respond_prompt_eq respond_eq split: prod.split sum.split)

subsection \<open>Claim C8: one model call, its outcome passed through\<close>

text \<open>
  Claim C8. For every input, with no check of the session id, the insights text or
  the size of the transcript, \<^verbatim>\<open>respond\<close>, \<^verbatim>\<open>reflect\<close> and \<^verbatim>\<open>learn\<close> call the
  model once on their prompt and give back its outcome as it is: the error of a
  failed call is the operation's error, and the state of the model after the
  operation is its state after that single call, so nothing is retried. The agent's
  \<^verbatim>\<open>learn\<close> method, which reflects and then learns, stops at the first of its two
  model calls that fails and gives back that error.
\<close>

theorem collaborator_error_surfaces:
  "fst (respond complete self human_input session_id) =
     fst (complete (llm self)
            ((System, agent_instruction) # transcript_of (store self) session_id @
             [(Human, human_input), (System, ''Recent insights for improvement: '' @ insights self)]))
   \<and> llm (snd (respond complete self human_input session_id)) =
     snd (complete (llm self)
            ((System, agent_instruction) # transcript_of (store self) session_id @
             [(Human, human_input), (System, ''Recent insights for improvement: '' @ insights self)]))
   \<and> fst (reflect complete l st session_id) =
     fst (complete l ((System, reflection_instruction) # transcript_of st session_id @
                      [(Human, ''Generate insights for improvement:'')]))
   \<and> fst (snd (reflect complete l st session_id)) =
     snd (complete l ((System, reflection_instruction) # transcript_of st session_id @
                      [(Human, ''Generate insights for improvement:'')]))
   \<and> fst (learn complete l st session_id ins) =
     fst (complete l [(System, learning_instruction), (Human, ins),
                      (Human, ''Summarize the key points to remember:'')])
   \<and> fst (snd (learn complete l st session_id ins)) =
     snd (complete l [(System, learning_instruction), (Human, ins),
                      (Human, ''Summarize the key points to remember:'')])
   \<and> (\<forall>e l1. complete (llm self)
                 ((System, reflection_instruction) # transcript_of (store self) session_id @
                  [(Human, ''Generate insights for improvement:'')]) = (Inl e, l1) \<longrightarrow>
          fst (agent_learn complete self session_id) = Inl e
          \<and> llm (snd (agent_learn complete self session_id)) = l1)
   \<and> (\<forall>r l1 e l2. complete (llm self)
                 ((System, reflection_instruction) # transcript_of (store self) session_id @
                  [(Human, ''Generate insights for improvement:'')]) = (Inr r, l1)
          \<and> complete l1 [(System, learning_instruction), (Human, r),
                          (Human, ''Summarize the key points to remember:'')] = (Inl e, l2) \<longrightarrow>
          fst (agent_learn complete self session_id) = Inl e
          \<and> llm (snd (agent_learn complete self session_id)) = l2)"
  by (auto simp: respond_eq reflect_eq learn_eq agent_learn_eq split: prod.splits sum.splits)

theorem collaborator_error_surfaces_witness:
  "scripted (llm (scripted_agent [Inl (ProviderError ''quota'')]))
     ((System, reflection_instruction) #
      transcript_of (store (scripted_agent [Inl (ProviderError ''quota'')])) ''s1'' @
      [(Human, ''Generate insights for improvement:'')])
     = (Inl (ProviderError ''quota''),
        ([], [[(System, reflection_instruction), (Human, ''Generate insights for improvement:'')]]))
   \<and> fst (agent_learn scripted (scripted_agent [Inl (ProviderError ''quota'')]) ''s1'')
     = Inl (ProviderError ''quota'')
   \<and> llm (snd (agent_learn scripted (scripted_agent [Inl (ProviderError ''quota'')]) ''s1''))
     = ([], [[(System, reflection_instruction), (Human, ''Generate insights for improvement:'')]])
   \<and> scripted (llm (scripted_agent [Inr ''R'', Inl (ProviderError ''quota'')]))
     ((System, reflection_instruction) #
      transcript_of (store (scripted_agent [Inr ''R'', Inl (ProviderError ''quota'')])) ''s1'' @
      [(Human, ''Generate insights for improvement:'')])
     = (Inr ''R'',
        ([Inl (ProviderError ''quota'')],
         [[(System, reflection_instruction), (Human, ''Generate insights for improvement:'')]]))
   \<and> scripted
        ([Inl (ProviderError ''quota'')],
         [[(System, reflection_instruction), (Human, ''Generate insights for improvement:'')]])
        [(System, learning_instruction), (Human, ''R''),
         (Human, ''Summarize the key points to remember:'')]
     = (Inl (ProviderError ''quota''),
        ([], [[(System, reflection_instruction), (Human, ''Generate insights for improvement:'')],
              [(System, learning_instruction), (Human, ''R''),
               (Human, ''Summarize the key points to remember:'')]]))
   \<and> fst (agent_learn scripted (scripted_agent [Inr ''R'', Inl (ProviderError ''quota'')]) ''s1'')
     = Inl (ProviderError ''quota'')
   \<and> llm (snd (agent_learn scripted (scripted_agent [Inr ''R'', Inl (ProviderError ''quota'')]) ''s1''))
     = ([], [[(System, reflection_instruction), (Human, ''Generate insights for improvement:'')],
             [(System, learning_instruction), (Human, ''R''),
              (Human, ''Summarize the key points to remember:'')]])"
proof -
  let ?a1 = "scripted_agent [Inl (ProviderError ''quota'')]"
  let ?a2 = "scripted_agent [Inr ''R'', Inl (ProviderError ''quota'')]"
  let ?p1 = "[(System, reflection_instruction), (Human, ''Generate insights for improvement:'')]"
  let ?p2 = "[(System, learning_instruction), (Human, ''R''),
              (Human, ''Summarize the key points to remember:'')]"
  have h1: "scripted (llm ?a1)
     ((System, reflection_instruction) # transcript_of (store ?a1) ''s1'' @
      [(Human, ''Generate insights for improvement:'')])
     = (Inl (ProviderError ''quota''), ([], [?p1]))"
    by (simp add: scripted_agent_def init_def transcript_of_def)
  have h2: "scripted (llm ?a2)
     ((System, reflection_instruction) # transcript_of (store ?a2) ''s1'' @
      [(Human, ''Generate insights for improvement:'')])
     = (Inr ''R'', ([Inl (ProviderError ''quota'')], [?p1]))"
    by (simp add: scripted_agent_def init_def transcript_of_def)
  have h3: "scripted ([Inl (ProviderError ''quota'')], [?p1]) ?p2
     = (Inl (ProviderError ''quota''), ([], [?p1, ?p2]))"
    by simp
  from h1 collaborator_error_surfaces [of scripted ?a1 _ "''s1''"]
  have c1: "fst (agent_learn scripted ?a1 ''s1'') = Inl (ProviderError ''quota'')
      \<and> llm (snd (agent_learn scripted ?a1 ''s1'')) = ([], [?p1])"
    by blast
  from h2 h3 collaborator_error_surfaces [of scripted ?a2 _ "''s1''"]
  have c2: "fst (agent_learn scripted ?a2 ''s1'') = Inl (ProviderError ''quota'')
      \<and> llm (snd (agent_learn scripted ?a2 ''s1'')) = ([], [?p1, ?p2])"
    by blast
  from h1 h2 h3 c1 c2 show ?thesis by blast
qed

subsection \<open>Claim C9: the agent's learn reflects first\<close>

text \<open>
  Claim C9. The agent's \<^verbatim>\<open>learn\<close> method takes no insights text. It first reflects
  on the session's transcript; when the model answers the reflection prompt with a
  text, that text overwrites the agent's insights (as the agent's \<^verbatim>\<open>reflect\<close>
  method does), the learning call is then made on that text from the model state the
  reflection left, and after the method the stored insights are the reflection text,
  whether the learning call succeeded or failed.
\<close>

theorem agent_learn_reflects_first:
  assumes "complete (llm self)
             ((System, reflection_instruction) # transcript_of (store self) session_id @
              [(Human, ''Generate insights for improvement:'')]) = (Inr reflection, l1)"
  shows "insights (snd (agent_learn complete self session_id)) = reflection
    \<and> fst (agent_learn complete self session_id) =
        fst (complete l1 [(System, learning_instruction), (Human, reflection),
                          (Human, ''Summarize the key points to remember:'')])
    \<and> llm (snd (agent_learn complete self session_id)) =
        snd (complete l1 [(System, learning_instruction), (Human, reflection),
                          (Human, ''Summarize the key points to remember:'')])
    \<and> agent_reflect complete self session_id =
        (Inr reflection,
         self\<lparr>llm := l1, store := snd (get_chat_history (store self) session_id),
               insights := reflection\<rparr>)"
  using assms
  by (auto simp: agent_learn_eq agent_reflect_eq get_chat_history_eq split: prod.splits sum.splits)

theorem agent_learn_reflects_first_witness:
  "scripted (llm (scripted_agent [Inr ''R'', Inr ''L'']))
     ((System, reflection_instruction) #
      transcript_of (store (scripted_agent [Inr ''R'', Inr ''L''])) ''s1'' @
      [(Human, ''Generate insights for improvement:'')])
     = (Inr ''R'',
        ([Inr ''L''],
         [[(System, reflection_instruction), (Human, ''Generate insights for improvement:'')]]))
   \<and> insights (snd (agent_learn scripted (scripted_agent [Inr ''R'', Inr ''L'']) ''s1'')) = ''R''
   \<and> fst (agent_learn scripted (scripted_agent [Inr ''R'', Inr ''L'']) ''s1'') = Inr ''L''"
proof -
  let ?a = "scripted_agent [Inr ''R'', Inr ''L'']"
  let ?p1 = "[(System, reflection_instruction), (Human, ''Generate insights for improvement:'')]"
  have h: "scripted (llm ?a)
     ((System, reflection_instruction) # transcript_of (store ?a) ''s1'' @
      [(Human, ''Generate insights for improvement:'')])
     = (Inr ''R'', ([Inr ''L''], [?p1]))"
    by (simp add: scripted_agent_def init_def transcript_of_def)
  from agent_learn_reflects_first [of scripted, OF h]
  have "insights (snd (agent_learn scripted ?a ''s1'')) = ''R''"
    and "fst (agent_learn scripted ?a ''s1'') =
         fst (scripted ([Inr ''L''], [?p1]) [(System, learning_instruction), (Human, ''R''),
                          (Human, ''Summarize the key points to remember:'')])"
    by blast+
  with h show ?thesis by simp
qed

subsection \<open>Claim C10: every operation is local to its session\<close>

text \<open>
  Claim C10. A \<^verbatim>\<open>respond\<close>, \<^verbatim>\<open>reflect\<close> or \<^verbatim>\<open>learn\<close> call with session id \<open>A\<close>
  changes the store at \<open>A\<close> only: the store after the call is the store before it
  with \<open>A\<close> bound to \<open>A\<close>'s former transcript (empty when \<open>A\<close> was unknown) followed
  by the appended turns, if any; the helper \<^verbatim>\<open>learn\<close> leaves the store as it is
  when its model call fails. The entry of every other session id \<open>B\<close> is the same
  before and after the call.
\<close>

theorem operations_session_local:
  "(\<exists>ts. store (snd (respond complete self human_input A)) =
           (store self)(A \<mapsto> transcript_of (store self) A @ ts))
   \<and> (\<exists>ts. store (snd (agent_reflect complete self A)) =
           (store self)(A \<mapsto> transcript_of (store self) A @ ts))
   \<and> (\<exists>ts. store (snd (agent_learn complete self A)) =
           (store self)(A \<mapsto> transcript_of (store self) A @ ts))
   \<and> (snd (snd (learn complete l st A ins)) = st
        \<or> (\<exists>ts. snd (snd (learn complete l st A ins)) = st(A \<mapsto> transcript_of st A @ ts)))
   \<and> (B \<noteq> A \<longrightarrow>
         store (snd (respond complete self human_input A)) B = store self B
         \<and> store (snd (agent_reflect complete self A)) B = store self B
         \<and> store (snd (agent_learn complete self A)) B = store self B
         \<and> snd (snd (reflect complete l st A)) B = st B
         \<and> snd (snd (learn complete l st A ins)) B = st B)"
proof (intro conjI impI)
  show "\<exists>ts. store (snd (respond complete self human_input A)) =
           (store self)(A \<mapsto> transcript_of (store self) A @ ts)"
    by (cases "complete (llm self) ((System, agent_instruction) # transcript_of (store self) A @
                 [(Human, human_input), (System, ''Recent insights for improvement: '' @ insights self)])")
       (auto simp: respond_eq created_eq split: sum.splits intro: exI [of _ "[]"])
  show "\<exists>ts. store (snd (agent_reflect complete self A)) =
           (store self)(A \<mapsto> transcript_of (store self) A @ ts)"
    by (auto simp: agent_reflect_eq created_eq split: prod.splits sum.splits intro: exI [of _ "[]"])
  show "\<exists>ts. store (snd (agent_learn complete self A)) =
           (store self)(A \<mapsto> transcript_of (store self) A @ ts)"
    by (auto simp: agent_learn_eq created_eq split: prod.splits sum.splits intro: exI [of _ "[]"])
  show "snd (snd (learn complete l st A ins)) = st
        \<or> (\<exists>ts. snd (snd (learn complete l st A ins)) = st(A \<mapsto> transcript_of st A @ ts))"
    by (auto simp: learn_eq split: prod.splits sum.splits)
next
  assume "B \<noteq> A"
  then show "store (snd (respond complete self human_input A)) B = store self B"
    and "store (snd (agent_reflect complete self A)) B = store self B"
    and "store (snd (agent_learn complete self A)) B = store self B"
    and "snd (snd (reflect complete l st A)) B = st B"
    and "snd (snd (learn complete l st A ins)) B = st B"
    by (auto simp: respond_eq agent_reflect_eq agent_learn_eq reflect_eq learn_eq created_eq
             split: prod.splits sum.splits)
qed

theorem operations_session_local_witness:
  "''s2'' \<noteq> ''s1''
   \<and> store (snd (respond scripted
         ((scripted_agent [Inr ''T1''])\<lparr>store := [''s2'' \<mapsto> [(Human, ''Hey''), (AI, ''T0'')]]\<rparr>)
         ''Hi'' ''s1'')) ''s2'' = Some [(Human, ''Hey''), (AI, ''T0'')]
   \<and> store (snd (respond scripted
         ((scripted_agent [Inr ''T1''])\<lparr>store := [''s2'' \<mapsto> [(Human, ''Hey''), (AI, ''T0'')]]\<rparr>)
         ''Hi'' ''s1'')) ''s1'' = Some [(Human, ''Hi''), (AI, ''T1'')]"
proof -
  let ?a = "(scripted_agent [Inr ''T1''])\<lparr>store := [''s2'' \<mapsto> [(Human, ''Hey''), (AI, ''T0'')]]\<rparr>"
  have d: "''s2'' \<noteq> ''s1''" by simp
  have "store (snd (respond scripted ?a ''Hi'' ''s1'')) ''s2'' = store ?a ''s2''"
    using operations_session_local [of scripted ?a "''Hi''" "''s1''" _ _ _ "''s2''"] d by blast
  moreover have "store ?a ''s2'' = Some [(Human, ''Hey''), (AI, ''T0'')]"
    by simp
  moreover have "store (snd (respond scripted ?a ''Hi'' ''s1'')) ''s1'' = Some [(Human, ''Hi''), (AI, ''T1'')]"
    by (simp add: respond_eq scripted_agent_def init_def transcript_of_def)
  ultimately show ?thesis using d by simp
qed

end
